theory Spec2Isabelle
  imports Main "HOL-Library.Sublist" "HOL-Library.AList" "HOL-Library.Char_ord"
begin

section \<open>The VIN decoder of \<^verbatim>\<open>vin_decoder.py\<close>\<close>

text \<open>
  A shallow embedding of class \<^verbatim>\<open>VINDecoder\<close>: \<^verbatim>\<open>validate_vin\<close>, \<^verbatim>\<open>decode_vin\<close>,
  \<^verbatim>\<open>_validate_check_digit\<close>, \<^verbatim>\<open>_determine_vehicle_type\<close>, \<^verbatim>\<open>get_forensic_summary\<close> and
  \<^verbatim>\<open>_assess_legal_relevance\<close>. The methods read no attribute of the decoder other than
  the compiled pattern and the two class-level tables, so \<^verbatim>\<open>self\<close> is not a parameter.
  The calls to the logger write to the log sink and return nothing; they are left out.

  A Python \<^verbatim>\<open>str\<close> is a sequence of code points and \<^verbatim>\<open>len\<close> counts them. The model is
  \<^typ>\<open>string\<close> with one \<^typ>\<open>char\<close> per code point, which covers the code points
  U+0000 to U+00FF.
\<close>

subsection \<open>Strings\<close>

text \<open>
  \<^verbatim>\<open>str.upper()\<close> on one character. ASCII letters and the accented letters U+00E0 to
  U+00FE (without the division sign U+00F7) move down by 32; the sharp s U+00DF
  becomes the two letters \<^verbatim>\<open>SS\<close>. The micro sign U+00B5 and y with diaeresis U+00FF have
  their capitals (U+039C, U+0178) beyond U+00FF; they stay in place here. Neither form is
  in the VIN alphabet or a line feed, and the decoder only matches the upper-cased string
  against the pattern and returns it when it matched, so no result depends on that.
\<close>

definition upper_char :: "char \<Rightarrow> string" where
  "upper_char c =
     (if CHR ''a'' \<le> c \<and> c \<le> CHR ''z'' then [char_of (of_char c - (32::nat))]
      else if c = CHR 0xDF then ''SS''
      else if CHR 0xE0 \<le> c \<and> c \<le> CHR 0xFE \<and> c \<noteq> CHR 0xF7
        then [char_of (of_char c - (32::nat))]
      else [c])"

definition upper :: "string \<Rightarrow> string" where
  "upper s = concat (map upper_char s)"

text \<open>The decimal numeral an f-string prints for a length.\<close>

fun str_of_nat :: "nat \<Rightarrow> string" where
  "str_of_nat n =
     (if n < 10 then [''0123456789'' ! n]
      else str_of_nat (n div 10) @ [''0123456789'' ! (n mod 10)])"

text \<open>\<^verbatim>\<open>s[i]\<close> for \<open>i \<ge> 0\<close>: a string of one character, or \<^verbatim>\<open>IndexError\<close>.\<close>

datatype error = IndexError

definition index :: "string \<Rightarrow> nat \<Rightarrow> error + string" where
  "index s i = (if i < length s then Inr [s ! i] else Inl IndexError)"

text \<open>\<^verbatim>\<open>sub in s\<close>: \<open>sub\<close> occurs in \<open>s\<close> as a contiguous substring.\<close>

primrec str_contains :: "string \<Rightarrow> string \<Rightarrow> bool" where
  "str_contains sub [] = (sub = [])"
| "str_contains sub (c # cs) = (prefix sub (c # cs) \<or> str_contains sub cs)"

subsection \<open>Data\<close>

record VINInfo =
  vin :: string
  manufacturer :: string
  model_year :: int
  plant_code :: string
  vehicle_type :: string
  is_valid :: bool
  errors :: "string list"

definition MANUFACTURERS :: "string \<rightharpoonup> string" where
  "MANUFACTURERS = map_of
     [(''KM8'', ''Hyundai Motor Company''),
      (''1G1'', ''General Motors''),
      (''JHM'', ''Honda''),
      (''WBA'', ''BMW'')]"

definition MODEL_YEARS :: "string \<rightharpoonup> int" where
  "MODEL_YEARS = map_of
     [(''L'', 2020), (''M'', 2021), (''N'', 2022), (''P'', 2023), (''R'', 2024), (''S'', 2025)]"

text \<open>
  The character class \<^verbatim>\<open>[A-HJ-NPR-Z0-9]\<close>, and \<^verbatim>\<open>self.vin_pattern.match\<close> for the pattern
  \<^verbatim>\<open>^[A-HJ-NPR-Z0-9]{17}$\<close>: seventeen characters of the class from the start, and then
  the end of the string. Without the multi-line flag \<^verbatim>\<open>$\<close> also matches just before a
  line feed that is the last character.
\<close>

definition vin_class :: "char \<Rightarrow> bool" where
  "vin_class c \<longleftrightarrow>
     (CHR ''A'' \<le> c \<and> c \<le> CHR ''H'') \<or> (CHR ''J'' \<le> c \<and> c \<le> CHR ''N'') \<or> c = CHR ''P'' \<or>
     (CHR ''R'' \<le> c \<and> c \<le> CHR ''Z'') \<or> (CHR ''0'' \<le> c \<and> c \<le> CHR ''9'')"

definition vin_pattern_match :: "string \<Rightarrow> bool" where
  "vin_pattern_match s \<longleftrightarrow>
     17 \<le> length s \<and> list_all vin_class (take 17 s) \<and>
     (drop 17 s = [] \<or> drop 17 s = [CHR 0x0A])"

text \<open>The values of the dictionary that \<^verbatim>\<open>get_forensic_summary\<close> returns.\<close>

datatype pyval = PyStr string | PyInt int | PyDict "(string \<times> string) list"

subsection \<open>Operations\<close>

definition validate_check_digit :: "string \<Rightarrow> bool" where
  "validate_check_digit v = True"

definition validate_vin :: "string \<Rightarrow> bool \<times> string list" where
  "validate_vin v =
     (if v = [] then (False, [''VIN cannot be empty''])
      else
        let errs1 = (if length v \<noteq> 17
                     then [''VIN must be 17 characters, got '' @ str_of_nat (length v)]
                     else []);
            errs2 = (if \<not> vin_pattern_match (upper v)
                     then errs1 @ [''VIN contains invalid characters (I, O, Q not allowed)'']
                     else errs1);
            errs3 = (if length v = 17 \<and> \<not> validate_check_digit v
                     then errs2 @ [''Invalid VIN check digit'']
                     else errs2)
        in (length errs3 = 0, errs3))"

definition determine_vehicle_type :: "string \<Rightarrow> string" where
  "determine_vehicle_type v =
     (let descriptor = take 5 (drop 3 v) in
      if prefix ''KM8R54HE'' v then ''Palisade SUV''
      else if prefix ''KM8'' v then ''Hyundai Vehicle''
      else ''Unknown Vehicle Type'')"

definition decode_vin :: "string \<Rightarrow> error + VINInfo" where
  "decode_vin v =
     (case validate_vin v of (ok, errs) \<Rightarrow>
        if \<not> ok then
          Inr \<lparr>vin = v, manufacturer = ''Unknown'', model_year = 0, plant_code = [],
               vehicle_type = [], is_valid = False, errors = errs\<rparr>
        else
          let u = upper v; wmi = take 3 u in
          (case index u 9 of Inl e \<Rightarrow> Inl e | Inr year_code \<Rightarrow>
          (case index u 10 of Inl e \<Rightarrow> Inl e | Inr plant \<Rightarrow>
          (let mfr = (case MANUFACTURERS wmi of Some m \<Rightarrow> m
                      | None \<Rightarrow> ''Unknown ('' @ wmi @ '')'');
               year = (case MODEL_YEARS year_code of Some y \<Rightarrow> y | None \<Rightarrow> 0);
               errs' = (if year = 0 then errs @ [''Unknown model year code: '' @ year_code]
                        else errs);
               vtype = determine_vehicle_type u
           in Inr \<lparr>vin = u, manufacturer = mfr, model_year = year, plant_code = plant,
                   vehicle_type = vtype, is_valid = True, errors = errs'\<rparr>))))"

text \<open>
  Each assignment \<^verbatim>\<open>relevance[k] = v\<close> is \<^const>\<open>AList.update\<close>: it replaces the value of a
  key that is present and adds a new key at the end, as a Python dictionary does.
\<close>

definition assess_legal_relevance :: "VINInfo \<Rightarrow> (string \<times> string) list" where
  "assess_legal_relevance vin_info =
     (if str_contains ''Palisade'' (vehicle_type vin_info) then
        AList.update ''recall_potential'' ''Check NHTSA database for active recalls''
          (AList.update ''warranty_status'' ''10-year powertrain warranty applicable''
            (AList.update ''known_issues''
               ''Oil consumption defects documented in class action suits'' []))
      else [])"

definition get_forensic_summary :: "string \<Rightarrow> error + (string \<times> pyval) list" where
  "get_forensic_summary v =
     (case decode_vin v of Inl e \<Rightarrow> Inl e | Inr vin_info \<Rightarrow>
     (case (if 11 \<le> length v then index v 10 else Inr ''Unknown'') of Inl e \<Rightarrow> Inl e
      | Inr plant \<Rightarrow>
        Inr [(''vin'', PyStr (vin vin_info)),
             (''manufacturer'', PyStr (manufacturer vin_info)),
             (''model_year'', PyInt (model_year vin_info)),
             (''vehicle_type'', PyStr (vehicle_type vin_info)),
             (''validation_status'', PyStr (if is_valid vin_info then ''VALID'' else ''INVALID'')),
             (''forensic_notes'',
                PyDict [(''wmi_code'', take 3 v),
                        (''plant_code'', plant),
                        (''serial_number'', if 12 \<le> length v then drop 11 v else ''Unknown'')]),
             (''legal_relevance'', PyDict (assess_legal_relevance vin_info))]))"

section \<open>Auxiliary facts\<close>

declare str_of_nat.simps [simp del]

lemmas char_eval = char_of_def bit_Suc_0_iff

lemmas decoder_defs =
  decode_vin_def validate_vin_def validate_check_digit_def vin_pattern_match_def vin_class_def
  upper_def upper_char_def index_def determine_vehicle_type_def MANUFACTURERS_def
  MODEL_YEARS_def str_of_nat.simps

text \<open>Upper-casing leaves the characters of the VIN alphabet alone.\<close>

lemma upper_char_class: "vin_class c \<Longrightarrow> upper_char c = [c]"
  by (auto simp: vin_class_def upper_char_def less_eq_char_def)

lemma upper_class: "list_all vin_class s \<Longrightarrow> upper s = s"
  by (induction s) (auto simp: upper_def upper_char_class)

text \<open>What \<^const>\<open>validate_vin\<close> decides, and that its flag says whether its list is empty.\<close>

lemma validate_vin_fst:
  "fst (validate_vin v) \<longleftrightarrow> length v = 17 \<and> vin_pattern_match (upper v)"
  by (auto simp: validate_vin_def validate_check_digit_def Let_def)

lemma validate_vin_snd:
  "snd (validate_vin v) = [] \<longleftrightarrow> fst (validate_vin v)"
  by (auto simp: validate_vin_def validate_check_digit_def Let_def)

lemma vin_pattern_match_length: "vin_pattern_match s \<Longrightarrow> 17 \<le> length s"
  by (simp add: vin_pattern_match_def)

lemma valid_upper_class:
  assumes "fst (validate_vin v)" "length (upper v) = length v"
  shows "list_all vin_class (upper v)"
  using assms by (auto simp: validate_vin_fst vin_pattern_match_def)

lemma class_upper_valid:
  assumes "length v = 17" "list_all vin_class (upper v)" "length (upper v) = length v"
  shows "fst (validate_vin v)"
  using assms by (auto simp: validate_vin_fst vin_pattern_match_def)

lemma MODEL_YEARS_nonzero: "MODEL_YEARS k = Some y \<Longrightarrow> y \<noteq> 0"
  by (auto simp: MODEL_YEARS_def split: if_splits)

text \<open>The two paths of \<^const>\<open>decode_vin\<close>.\<close>

lemma decode_vin_invalid:
  assumes "\<not> fst (validate_vin v)"
  shows "decode_vin v =
     Inr \<lparr>vin = v, manufacturer = ''Unknown'', model_year = 0, plant_code = [],
          vehicle_type = [], is_valid = False, errors = snd (validate_vin v)\<rparr>"
  using assms by (cases "validate_vin v") (simp add: decode_vin_def)

lemma decode_vin_valid:
  assumes "fst (validate_vin v)"
  shows "decode_vin v =
     Inr \<lparr>vin = upper v,
          manufacturer = (case MANUFACTURERS (take 3 (upper v)) of Some m \<Rightarrow> m
                          | None \<Rightarrow> ''Unknown ('' @ take 3 (upper v) @ '')''),
          model_year = (case MODEL_YEARS [upper v ! 9] of Some y \<Rightarrow> y | None \<Rightarrow> 0),
          plant_code = [upper v ! 10],
          vehicle_type = determine_vehicle_type (upper v),
          is_valid = True,
          errors = (if [upper v ! 9] \<in> dom MODEL_YEARS then []
                    else [''Unknown model year code: '' @ [upper v ! 9]])\<rparr>"
proof -
  from assms have len: "17 \<le> length (upper v)"
    by (simp add: validate_vin_fst vin_pattern_match_length)
  from assms have errs: "validate_vin v = (True, [])"
    using validate_vin_snd [of v] by (cases "validate_vin v") simp
  have i9: "index (upper v) 9 = Inr [upper v ! 9]"
    and i10: "index (upper v) 10 = Inr [upper v ! 10]"
    using len by (simp_all add: index_def)
  show ?thesis
    by (auto simp: decode_vin_def errs i9 i10 Let_def dom_def dest: MODEL_YEARS_nonzero
             split: option.splits)
qed

section \<open>Validity and the error list\<close>

text \<open>
  C1, as the code has it. For an input whose upper-cased form has the input's length (every
  ASCII string is one): \<open>is_valid\<close> of the decoded record is true iff the list that
  \<^const>\<open>validate_vin\<close> returns is empty, iff the input has 17 characters, each of them
  upper-cased is in the alphabet \<^verbatim>\<open>[A-HJ-NPR-Z0-9]\<close> and the check-digit stub passes. The
  \<open>errors\<close> of the record are empty iff the record is valid and the character at index 9,
  upper-cased, is a key of the year table.
\<close>

theorem decode_vin_validity:
  assumes "length (upper v) = length v"
  shows "\<exists>r. decode_vin v = Inr r \<and>
           (is_valid r \<longleftrightarrow> snd (validate_vin v) = []) \<and>
           (is_valid r \<longleftrightarrow>
              length v = 17 \<and> list_all vin_class (upper v) \<and> validate_check_digit v) \<and>
           (errors r = [] \<longleftrightarrow> is_valid r \<and> [upper v ! 9] \<in> dom MODEL_YEARS)"
proof (cases "fst (validate_vin v)")
  case True
  with assms have "length v = 17" "list_all vin_class (upper v)"
    by (simp_all add: validate_vin_fst valid_upper_class)
  with True show ?thesis
    by (simp add: decode_vin_valid validate_vin_snd validate_check_digit_def)
next
  case False
  with assms have "\<not> (length v = 17 \<and> list_all vin_class (upper v))"
    using class_upper_valid by blast
  with False show ?thesis
    by (auto simp add: decode_vin_invalid validate_vin_snd validate_check_digit_def)
qed

theorem decode_vin_validity_witness:
  "length (upper ''jhmab1c23mc000001'') = length ''jhmab1c23mc000001'' \<and>
   (\<exists>r. decode_vin ''jhmab1c23mc000001'' = Inr r \<and>
      (is_valid r \<longleftrightarrow> snd (validate_vin ''jhmab1c23mc000001'') = []) \<and>
      (is_valid r \<longleftrightarrow>
         length ''jhmab1c23mc000001'' = 17 \<and>
         list_all vin_class (upper ''jhmab1c23mc000001'') \<and>
         validate_check_digit ''jhmab1c23mc000001'') \<and>
      (errors r = [] \<longleftrightarrow>
         is_valid r \<and> [upper ''jhmab1c23mc000001'' ! 9] \<in> dom MODEL_YEARS))"
proof -
  have h: "length (upper ''jhmab1c23mc000001'') = length ''jhmab1c23mc000001''"
    by (simp add: upper_def upper_char_def)
  from h decode_vin_validity [OF h] show ?thesis
    by (rule conjI)
qed

text \<open>
  The claim as stated (\<open>is_valid\<close> iff \<open>errors\<close> is empty) fails at a well-formed VIN whose
  year code is not in the table: the record is valid and carries an error.
\<close>

theorem decode_vin_valid_with_error:
  "decode_vin ''WBA12345678901234'' =
     Inr \<lparr>vin = ''WBA12345678901234'', manufacturer = ''BMW'', model_year = 0,
          plant_code = ''8'', vehicle_type = ''Unknown Vehicle Type'', is_valid = True,
          errors = [''Unknown model year code: 7'']\<rparr>"
  by (simp add: decoder_defs)

section \<open>The \<open>vin\<close> field\<close>

text \<open>
  C2, as the code has it. The \<open>vin\<close> field of the decoded record is the input in upper case
  when validation succeeds, and the input as it was given when validation fails.
\<close>

theorem decode_vin_field_vin:
  "\<exists>r. decode_vin v = Inr r \<and> vin r = (if fst (validate_vin v) then upper v else v)"
  by (simp add: decode_vin_valid decode_vin_invalid)

text \<open>On the invalid path the lower-case input comes back in lower case.\<close>

theorem decode_vin_invalid_keeps_case:
  "decode_vin ''abc'' =
     Inr \<lparr>vin = ''abc'', manufacturer = ''Unknown'', model_year = 0, plant_code = [],
          vehicle_type = [], is_valid = False,
          errors = [''VIN must be 17 characters, got 3'',
                    ''VIN contains invalid characters (I, O, Q not allowed)'']\<rparr> \<and>
   upper ''abc'' = ''ABC''"
  by (simp add: decoder_defs char_eval)

section \<open>Errors reported by validation\<close>

text \<open>
  C3, as the code has it. A non-empty string whose length is not 17 is invalid and its error
  list contains the message that reports its length. The empty string is invalid too, but
  it leaves \<^const>\<open>validate_vin\<close> at the first test with the one message
  \<^verbatim>\<open>VIN cannot be empty\<close>.
\<close>

theorem validate_vin_length_error:
  "(v \<noteq> [] \<and> length v \<noteq> 17 \<longrightarrow>
      \<not> fst (validate_vin v) \<and>
      (''VIN must be 17 characters, got '' @ str_of_nat (length v))
        \<in> set (snd (validate_vin v))) \<and>
   validate_vin [] = (False, [''VIN cannot be empty''])"
  by (simp add: validate_vin_def Let_def validate_check_digit_def)

theorem validate_vin_length_error_witness:
  "''KM8R54HE1L'' \<noteq> [] \<and> length ''KM8R54HE1L'' \<noteq> 17 \<and>
   \<not> fst (validate_vin ''KM8R54HE1L'') \<and>
   ''VIN must be 17 characters, got 10'' \<in> set (snd (validate_vin ''KM8R54HE1L''))"
  using validate_vin_length_error [of "''KM8R54HE1L''"] by (simp add: str_of_nat.simps)

text \<open>For the empty string no message of the list reports the length 0.\<close>

theorem validate_vin_empty_no_length:
  "length ([] :: string) \<noteq> 17 \<and> validate_vin [] = (False, [''VIN cannot be empty'']) \<and>
   (''VIN must be 17 characters, got '' @ str_of_nat (length ([] :: string)))
     \<notin> set (snd (validate_vin []))"
  by (simp add: validate_vin_def)

text \<open>
  C5. When validation fails, the decoded record has the manufacturer \<^verbatim>\<open>Unknown\<close>, the
  model year 0, an empty plant code, an empty vehicle type, \<open>is_valid = False\<close> and exactly
  the errors of \<^const>\<open>validate_vin\<close>; for the empty string these are the one message
  \<^verbatim>\<open>VIN cannot be empty\<close>.
\<close>

theorem decode_vin_placeholders:
  "(\<not> fst (validate_vin v) \<longrightarrow>
      decode_vin v =
        Inr \<lparr>vin = v, manufacturer = ''Unknown'', model_year = 0, plant_code = [],
             vehicle_type = [], is_valid = False, errors = snd (validate_vin v)\<rparr>) \<and>
   decode_vin [] =
     Inr \<lparr>vin = [], manufacturer = ''Unknown'', model_year = 0, plant_code = [],
          vehicle_type = [], is_valid = False, errors = [''VIN cannot be empty'']\<rparr>"
  by (simp add: decode_vin_invalid) (simp add: decode_vin_def validate_vin_def)

theorem decode_vin_placeholders_witness:
  "\<not> fst (validate_vin ''KM8R54HE1LI066808'') \<and>
   decode_vin ''KM8R54HE1LI066808'' =
     Inr \<lparr>vin = ''KM8R54HE1LI066808'', manufacturer = ''Unknown'', model_year = 0,
          plant_code = [], vehicle_type = [], is_valid = False,
          errors = [''VIN contains invalid characters (I, O, Q not allowed)'']\<rparr>"
proof -
  have h: "validate_vin ''KM8R54HE1LI066808'' =
             (False, [''VIN contains invalid characters (I, O, Q not allowed)''])"
    by (simp add: decoder_defs)
  with decode_vin_placeholders [of "''KM8R54HE1LI066808''"] show ?thesis
    by simp
qed

text \<open>
  C10. A record that \<^const>\<open>decode_vin\<close> returns as valid has at most one error, and if
  it has one it is the unknown-model-year-code message for the character at index 9 of
  its \<open>vin\<close>.
\<close>

theorem valid_record_errors:
  assumes "decode_vin v = Inr r" "is_valid r"
  shows "length (errors r) \<le> 1 \<and>
         (errors r = [] \<or> errors r = [''Unknown model year code: '' @ [vin r ! 9]])"
proof (cases "fst (validate_vin v)")
  case True
  with assms show ?thesis by (auto simp: decode_vin_valid split: if_splits)
next
  case False
  with assms show ?thesis by (auto simp: decode_vin_invalid)
qed

theorem valid_record_errors_witness:
  "decode_vin ''1g1yy22g965100001'' =
     Inr \<lparr>vin = ''1G1YY22G965100001'', manufacturer = ''General Motors'', model_year = 0,
          plant_code = ''5'', vehicle_type = ''Unknown Vehicle Type'', is_valid = True,
          errors = [''Unknown model year code: 6'']\<rparr> \<and>
   is_valid
     \<lparr>vin = ''1G1YY22G965100001'', manufacturer = ''General Motors'', model_year = 0,
      plant_code = ''5'', vehicle_type = ''Unknown Vehicle Type'', is_valid = True,
      errors = [''Unknown model year code: 6'']\<rparr> \<and>
   length [''Unknown model year code: 6''] \<le> (1::nat) \<and>
   [''Unknown model year code: 6''] =
     [''Unknown model year code: '' @ [''1G1YY22G965100001'' ! 9]]"
proof -
  have d: "decode_vin ''1g1yy22g965100001'' =
     Inr \<lparr>vin = ''1G1YY22G965100001'', manufacturer = ''General Motors'', model_year = 0,
          plant_code = ''5'', vehicle_type = ''Unknown Vehicle Type'', is_valid = True,
          errors = [''Unknown model year code: 6'']\<rparr>"
    by (simp add: decoder_defs char_eval)
  have iv: "is_valid
     \<lparr>vin = ''1G1YY22G965100001'', manufacturer = ''General Motors'', model_year = 0,
      plant_code = ''5'', vehicle_type = ''Unknown Vehicle Type'', is_valid = True,
      errors = [''Unknown model year code: 6'']\<rparr>"
    by simp
  from valid_record_errors [OF d iv] d show ?thesis
    by simp
qed

section \<open>Known scenarios\<close>

text \<open>
  C4. A string of 17 characters of the alphabet \<^verbatim>\<open>[A-HJ-NPR-Z0-9]\<close> that starts with
  \<^verbatim>\<open>WBA\<close> and whose character at index 9 is not a key of the year table decodes to the
  manufacturer BMW and the model year 0, with the unknown-model-year-code message among
  the errors of a record that is valid.
\<close>

theorem decode_vin_bmw_unknown_year:
  assumes "length v = 17" "list_all vin_class v" "prefix ''WBA'' v"
    "[v ! 9] \<notin> dom MODEL_YEARS"
  shows "\<exists>r. decode_vin v = Inr r \<and> manufacturer r = ''BMW'' \<and> model_year r = 0 \<and>
           (''Unknown model year code: '' @ [v ! 9]) \<in> set (errors r) \<and> is_valid r"
proof -
  from assms(2) have up: "upper v = v" by (rule upper_class)
  with assms(1,2) have ok: "fst (validate_vin v)"
    by (simp add: class_upper_valid)
  from assms(1,3) have wmi: "take 3 v = ''WBA''"
    by (auto simp: prefix_def)
  from assms(4) have yr: "MODEL_YEARS [v ! 9] = None" by (simp add: domIff)
  show ?thesis
    using assms(4) by (simp add: decode_vin_valid [OF ok] up wmi yr MANUFACTURERS_def)
qed

theorem decode_vin_bmw_unknown_year_witness:
  "length ''WBA3A5C50DF123456'' = 17 \<and> list_all vin_class ''WBA3A5C50DF123456'' \<and>
   prefix ''WBA'' ''WBA3A5C50DF123456'' \<and> [''WBA3A5C50DF123456'' ! 9] \<notin> dom MODEL_YEARS \<and>
   (\<exists>r. decode_vin ''WBA3A5C50DF123456'' = Inr r \<and> manufacturer r = ''BMW'' \<and>
      model_year r = 0 \<and>
      (''Unknown model year code: '' @ [''WBA3A5C50DF123456'' ! 9]) \<in> set (errors r) \<and>
      is_valid r)"
proof -
  have h: "length ''WBA3A5C50DF123456'' = 17" "list_all vin_class ''WBA3A5C50DF123456''"
    "prefix ''WBA'' ''WBA3A5C50DF123456''" "[''WBA3A5C50DF123456'' ! 9] \<notin> dom MODEL_YEARS"
    by (simp_all add: vin_class_def MODEL_YEARS_def)
  from h decode_vin_bmw_unknown_year [OF h] show ?thesis
    by (intro conjI)
qed

text \<open>
  C6. Decoding \<^verbatim>\<open>KM8R54HE1LU066808\<close> gives the manufacturer Hyundai Motor Company, the
  model year 2020 (year code L at index 9), the vehicle type Palisade SUV, a valid
  record and no errors.
\<close>

theorem decode_vin_palisade:
  "decode_vin ''KM8R54HE1LU066808'' =
     Inr \<lparr>vin = ''KM8R54HE1LU066808'', manufacturer = ''Hyundai Motor Company'',
          model_year = 2020, plant_code = ''U'', vehicle_type = ''Palisade SUV'',
          is_valid = True, errors = []\<rparr>"
  by (simp add: decoder_defs)

section \<open>Decoding twice\<close>

text \<open>
  When upper-casing keeps the length of the input, decoding the \<open>vin\<close> of a decoded record
  gives that record again.
\<close>

lemma decode_vin_idempotent_if:
  assumes "length (upper v) = length v" "decode_vin v = Inr r"
  shows "decode_vin (vin r) = Inr r"
proof (cases "fst (validate_vin v)")
  case False
  with assms(2) show ?thesis by (auto simp: decode_vin_invalid)
next
  case True
  from True assms(1) have cls: "list_all vin_class (upper v)" by (rule valid_upper_class)
  then have up: "upper (upper v) = upper v" by (rule upper_class)
  from True assms(1) have "length (upper v) = 17" by (simp add: validate_vin_fst)
  with cls up have ok: "fst (validate_vin (upper v))" by (simp add: class_upper_valid)
  from True assms(2) have r: "decode_vin v = Inr r" "vin r = upper v"
    by (auto simp: decode_vin_valid)
  have "decode_vin (upper v) = decode_vin v"
    unfolding decode_vin_valid [OF ok] decode_vin_valid [OF True] up by (rule refl)
  with r show ?thesis by simp
qed

text \<open>
  C7 (decoding the \<open>vin\<close> of a decoded record gives the same record) at the 17 characters
  \<^verbatim>\<open>KM8R54HE1LU0668\<close>, sharp s (U+00DF), line feed. Upper-casing makes 18 characters of
  them, the pattern matches the first 17 and accepts the line feed as the end, so the
  record is valid and its \<open>vin\<close> has 18 characters. Decoding that \<open>vin\<close> fails the
  length check and gives an invalid record.
\<close>

theorem decode_vin_sharp_s_twice:
  "decode_vin (''KM8R54HE1LU0668'' @ [CHR 0xDF, CHR 0x0A]) =
     Inr \<lparr>vin = ''KM8R54HE1LU0668SS\<newline>'', manufacturer = ''Hyundai Motor Company'',
          model_year = 2020, plant_code = ''U'', vehicle_type = ''Palisade SUV'',
          is_valid = True, errors = []\<rparr> \<and>
   decode_vin ''KM8R54HE1LU0668SS\<newline>'' =
     Inr \<lparr>vin = ''KM8R54HE1LU0668SS\<newline>'', manufacturer = ''Unknown'', model_year = 0,
          plant_code = [], vehicle_type = [], is_valid = False,
          errors = [''VIN must be 17 characters, got 18'']\<rparr>"
  by (simp add: decoder_defs)

section \<open>No exception, and the forensic summary\<close>

text \<open>
  C8. On every input \<^const>\<open>decode_vin\<close> and \<^const>\<open>get_forensic_summary\<close> return a result
  and raise nothing; the result of \<^const>\<open>decode_vin\<close> is a \<^typ>\<open>VINInfo\<close>, which has
  every field. \<^const>\<open>validate_vin\<close> calls nothing that can raise: the model of it is a
  total function with no error value.
\<close>

theorem decoder_never_raises:
  "(\<exists>b es. validate_vin v = (b, es)) \<and> (\<exists>r. decode_vin v = Inr r) \<and>
   (\<exists>d. get_forensic_summary v = Inr d)"
proof -
  obtain r where r: "decode_vin v = Inr r"
    by (cases "fst (validate_vin v)") (simp_all add: decode_vin_valid decode_vin_invalid)
  then show ?thesis
    by (simp add: get_forensic_summary_def index_def)
qed

text \<open>
  C9. In the forensic summary the plant code of the notes is the character at index 10 of
  the input when the input has at least 11 characters and \<^verbatim>\<open>Unknown\<close> otherwise; the serial
  number is the input from index 11 on when the input has at least 12 characters and
  \<^verbatim>\<open>Unknown\<close> otherwise; the legal-relevance dictionary has the three advisory entries
  when the decoded vehicle type contains \<^verbatim>\<open>Palisade\<close> and is empty otherwise.
\<close>

theorem forensic_summary_blocks:
  "\<exists>r d notes rel.
     decode_vin v = Inr r \<and> get_forensic_summary v = Inr d \<and>
     map_of d ''forensic_notes'' = Some (PyDict notes) \<and>
     map_of notes ''plant_code'' = Some (if 11 \<le> length v then [v ! 10] else ''Unknown'') \<and>
     map_of notes ''serial_number'' = Some (if 12 \<le> length v then drop 11 v else ''Unknown'') \<and>
     map_of d ''legal_relevance'' = Some (PyDict rel) \<and>
     (rel \<noteq> [] \<longleftrightarrow> str_contains ''Palisade'' (vehicle_type r)) \<and>
     rel = (if str_contains ''Palisade'' (vehicle_type r)
            then [(''known_issues'', ''Oil consumption defects documented in class action suits''),
                  (''warranty_status'', ''10-year powertrain warranty applicable''),
                  (''recall_potential'', ''Check NHTSA database for active recalls'')]
            else [])"
proof -
  obtain r where r: "decode_vin v = Inr r"
    by (cases "fst (validate_vin v)") (simp_all add: decode_vin_valid decode_vin_invalid)
  then show ?thesis
    by (simp add: get_forensic_summary_def index_def assess_legal_relevance_def)
qed

end
